theory Spec2Isabelle
  imports Complex_Main "HOL-Library.Word"
begin

unbundle bit_operations_syntax

section \<open>Values, errors and the outside world\<close>

text \<open>
  The two scripts, \<^verbatim>\<open>scrape.py\<close> and \<^verbatim>\<open>scrape_reddit.py\<close>, are thin drivers of a
  crawling library. The model keeps every step of the scripts and makes the
  library, the environment and the file system explicit: what the library
  answers is read from a \<open>world\<close>, what the scripts do to the outside is
  recorded in a \<open>state\<close> (standard output, files, calls made to the browser).
\<close>

text \<open>
  The Python values that \<^verbatim>\<open>json.loads\<close> can return. A \<^verbatim>\<open>dict\<close> is an association
  list read with \<open>map_of\<close>; a \<^verbatim>\<open>float\<close> is carried as its 64 bits.
\<close>

datatype json =
    JNull
  | JBool bool
  | JInt int
  | JFloat "64 word"
  | JString string
  | JArray "json list"
  | JObject "(string \<times> json) list"

text \<open>The exceptions that can leave the scripts.\<close>

datatype error =
    ValueError string
  | AttributeError string
  | TypeError string
  | OSError string
  | BrowserError string
  | CrawlerError string
  | SystemExit nat

text \<open>
  The text of one \<^verbatim>\<open>print\<close> call is a sequence of pieces: literal text, or a
  Python value formatted by an f-string (a \<^verbatim>\<open>str\<close> formats as itself).
\<close>

datatype piece = Lit string | PyStr json

type_synonym line = "piece list"

definition fmt :: "json \<Rightarrow> piece" where
  "fmt v = (case v of JString t \<Rightarrow> Lit t | _ \<Rightarrow> PyStr v)"

definition opt_str :: "string option \<Rightarrow> json" where
  "opt_str x = (case x of None \<Rightarrow> JNull | Some t \<Rightarrow> JString t)"

definition opt_int :: "int option \<Rightarrow> json" where
  "opt_int x = (case x of None \<Rightarrow> JNull | Some n \<Rightarrow> JInt n)"

text \<open>The configuration objects handed to the library.\<close>

record browser_config =
  headless :: bool
  verbose :: bool

datatype cache_mode = ENABLED | DISABLED | READ_ONLY | WRITE_ONLY | BYPASS

record llm_config =
  provider :: string
  api_token :: string

text \<open>
  Of \<^verbatim>\<open>CrawlerRunConfig\<close> the fields that differ between the two scripts are
  kept; the schema, the instruction text and the injected script are
  constants that only the library reads.
\<close>

record run_config =
  cache_mode :: cache_mode
  wait_until :: string
  delay_before_return_html :: rat
  extraction_strategy :: "llm_config option"
  has_js_code :: bool

text \<open>The fields of the library's \<^verbatim>\<open>CrawlResult\<close> that the scripts read.\<close>

record crawl_result =
  success :: bool
  status_code :: "int option"
  markdown :: "string option"
  extracted_content :: "string option"
  error_message :: "string option"

text \<open>
  What the outside answers: the environment variable, whether the browser
  starts (\<open>Some msg\<close> is the exception of \<^verbatim>\<open>__aenter__\<close>), what
  \<^verbatim>\<open>crawler.arun\<close> returns or raises, what \<^verbatim>\<open>json.loads\<close> returns or raises
  (\<open>Inl\<close> is the message of \<^verbatim>\<open>JSONDecodeError\<close>), whether a path can be opened
  for writing (\<open>Some msg\<close> is the \<^verbatim>\<open>OSError\<close>), and the standard library's
  validation of a network location, which \<^verbatim>\<open>urlsplit\<close> consults only for a
  bracketed or a non-ASCII one.
\<close>

record world =
  getenv_GEMINI_API_KEY :: "string option"
  browser_start :: "browser_config \<Rightarrow> string option"
  arun :: "string \<Rightarrow> run_config \<Rightarrow> string + crawl_result"
  json_loads :: "string \<Rightarrow> string + json"
  open_w :: "string \<Rightarrow> string option"
  netloc_valid :: "string \<Rightarrow> bool"

datatype file_content = Text string | JsonDump json nat

datatype call = BrowserStart browser_config | Arun string run_config | BrowserClose

record state =
  stdout :: "line list"
  files :: "string \<rightharpoonup> file_content"
  calls :: "call list"

definition print :: "line \<Rightarrow> state \<Rightarrow> state" where
  "print l s = s\<lparr>stdout := stdout s @ [l]\<rparr>"

definition record_call :: "call \<Rightarrow> state \<Rightarrow> state" where
  "record_call c s = s\<lparr>calls := calls s @ [c]\<rparr>"

definition write_file :: "string \<Rightarrow> file_content \<Rightarrow> state \<Rightarrow> state" where
  "write_file path c s = s\<lparr>files := (files s)(path \<mapsto> c)\<rparr>"

text \<open>
  \<^verbatim>\<open>async with AsyncWebCrawler(config=browser_config) as crawler: body\<close>:
  the browser is started; when that raises, the body and the exit handler do
  not run; otherwise the body runs and the exit handler closes the browser,
  whether the body returned or raised, and the body's outcome is passed on.
\<close>

definition async_with_crawler ::
  "world \<Rightarrow> browser_config \<Rightarrow> (state \<Rightarrow> (error + 'a) \<times> state) \<Rightarrow> state \<Rightarrow> (error + 'a) \<times> state" where
  "async_with_crawler w cfg body s =
     (let s1 = record_call (BrowserStart cfg) s in
      case browser_start w cfg of
        Some msg \<Rightarrow> (Inl (BrowserError msg), s1)
      | None \<Rightarrow> (case body s1 of (r, s2) \<Rightarrow> (r, record_call BrowserClose s2)))"

section \<open>The network location of a URL\<close>

text \<open>
  \<^verbatim>\<open>urlparse(url).netloc\<close> of the standard library (\<^verbatim>\<open>urllib.parse.urlsplit\<close>):
  leading control characters and spaces are stripped, tabs and line breaks
  removed, a leading scheme and its colon cut off, and when the rest starts
  with \<^verbatim>\<open>//\<close> the network location runs up to the first of \<^verbatim>\<open>/ ? #\<close>.
\<close>

definition lstrip_c0 :: "string \<Rightarrow> string" where
  "lstrip_c0 = dropWhile (\<lambda>c. (of_char c :: nat) \<le> 32)"

definition remove_unsafe :: "string \<Rightarrow> string" where
  "remove_unsafe = filter (\<lambda>c. c \<noteq> CHR 0x09 \<and> c \<noteq> CHR 0x0D \<and> c \<noteq> CHR 0x0A)"

definition is_ascii :: "char \<Rightarrow> bool" where
  "is_ascii c = ((of_char c :: nat) < 128)"

definition is_alpha :: "char \<Rightarrow> bool" where
  "is_alpha c = (let n = (of_char c :: nat) in (65 \<le> n \<and> n \<le> 90) \<or> (97 \<le> n \<and> n \<le> 122))"

definition is_digit :: "char \<Rightarrow> bool" where
  "is_digit c = (let n = (of_char c :: nat) in 48 \<le> n \<and> n \<le> 57)"

definition scheme_char :: "char \<Rightarrow> bool" where
  "scheme_char c = (is_alpha c \<or> is_digit c \<or> c = CHR ''+'' \<or> c = CHR ''-'' \<or> c = CHR ''.'')"

definition strip_scheme :: "string \<Rightarrow> string" where
  "strip_scheme url =
     (let pre = takeWhile (\<lambda>c. c \<noteq> CHR '':'') url in
      if length pre < length url \<and> pre \<noteq> [] \<and> is_alpha (hd pre) \<and> list_all scheme_char pre
      then drop (length pre + 1) url
      else url)"

definition splitnetloc :: "string \<Rightarrow> string" where
  "splitnetloc url =
     takeWhile (\<lambda>c. c \<noteq> CHR ''/'' \<and> c \<noteq> CHR ''?'' \<and> c \<noteq> CHR ''#'') (drop 2 url)"

definition check_netloc :: "world \<Rightarrow> string \<Rightarrow> error + string" where
  "check_netloc w netloc =
     (if netloc_valid w netloc then Inr netloc else Inl (ValueError ''invalid netloc''))"

definition urlparse_netloc :: "world \<Rightarrow> string \<Rightarrow> error + string" where
  "urlparse_netloc w url0 =
     (let url = strip_scheme (remove_unsafe (lstrip_c0 url0)) in
      if take 2 url = ''//'' then
        (let netloc = splitnetloc url;
             lb = (CHR ''['' \<in> set netloc);
             rb = (CHR '']'' \<in> set netloc) in
         if lb \<noteq> rb then Inl (ValueError ''Invalid IPv6 URL'')
         else if lb then check_netloc w netloc
         else if list_all is_ascii netloc then Inr netloc
         else check_netloc w netloc)
      else Inr [])"

section \<open>\<^verbatim>\<open>scrape.py\<close>\<close>

definition scrape_browser_config :: browser_config where
  "scrape_browser_config = \<lparr>headless = True, verbose = False\<rparr>"

definition scrape_run_config :: run_config where
  "scrape_run_config =
     \<lparr>cache_mode = BYPASS, wait_until = ''networkidle'', delay_before_return_html = 2,
      extraction_strategy = None, has_js_code = False\<rparr>"

definition replace_dots :: "string \<Rightarrow> string" where
  "replace_dots = map (\<lambda>c. if c = CHR ''.'' then CHR ''_'' else c)"

text \<open>Lines 32 to 34: the output file when none is given.\<close>

definition default_output_file :: "world \<Rightarrow> string \<Rightarrow> error + string" where
  "default_output_file w url =
     (case urlparse_netloc w url of
        Inl e \<Rightarrow> Inl e
      | Inr netloc \<Rightarrow> Inr (replace_dots netloc @ ''.md''))"

definition falsy_str :: "string option \<Rightarrow> bool" where
  "falsy_str x = (case x of None \<Rightarrow> True | Some t \<Rightarrow> t = [])"

definition int_len :: "'a list \<Rightarrow> json" where
  "int_len xs = JInt (int (length xs))"

definition scrape_body ::
  "world \<Rightarrow> string \<Rightarrow> string option \<Rightarrow> state \<Rightarrow> (error + string option) \<times> state" where
  "scrape_body w url output_file s0 =
     (let s1 = print [Lit ''Scraping: '', Lit url] s0;
          s2 = record_call (Arun url scrape_run_config) s1 in
      case arun w url scrape_run_config of
        Inl msg \<Rightarrow> (Inl (CrawlerError msg), s2)
      | Inr result \<Rightarrow>
          if success result then
            (let markdown_content = (if falsy_str (markdown result) then [] else the (markdown result)) in
             case (if falsy_str output_file then default_output_file w url
                   else Inr (the output_file)) of
               Inl e \<Rightarrow> (Inl e, s2)
             | Inr path \<Rightarrow>
                 (case open_w w path of
                    Some msg \<Rightarrow> (Inl (OSError msg), s2)
                  | None \<Rightarrow>
                      (let s3 = write_file path (Text markdown_content) s2;
                           s4 = print [Lit ''Success! Saved to '', Lit path] s3;
                           s5 = print [Lit ''Content length: '', PyStr (int_len markdown_content),
                                       Lit '' characters''] s4 in
                       (Inr (Some markdown_content), s5))))
          else
            (Inr None, print [Lit ''Failed: '', fmt (opt_str (error_message result))] s2))"

definition scrape_to_markdown ::
  "world \<Rightarrow> string \<Rightarrow> string option \<Rightarrow> state \<Rightarrow> (error + string option) \<times> state" where
  "scrape_to_markdown w url output_file s =
     async_with_crawler w scrape_browser_config (scrape_body w url output_file) s"




section \<open>\<^verbatim>\<open>scrape_reddit.py\<close>\<close>

definition reddit_browser_config :: browser_config where
  "reddit_browser_config = \<lparr>headless = False, verbose = True\<rparr>"

definition reddit_llm_config :: "string \<Rightarrow> llm_config" where
  "reddit_llm_config gemini_api_key =
     \<lparr>provider = ''gemini/gemini-2.5-flash'', api_token = gemini_api_key\<rparr>"

definition reddit_run_config :: "string \<Rightarrow> run_config" where
  "reddit_run_config gemini_api_key =
     \<lparr>cache_mode = BYPASS, wait_until = ''networkidle'', delay_before_return_html = 5,
      extraction_strategy = Some (reddit_llm_config gemini_api_key), has_js_code = True\<rparr>"

definition reddit_url :: string where
  "reddit_url = ''https://www.reddit.com/r/internships/new/''"

subsection \<open>The Python operations on parsed values\<close>

text \<open>\<^verbatim>\<open>bool(v)\<close>: a float is false when it is plus or minus zero.\<close>

fun truthy :: "json \<Rightarrow> bool" where
  "truthy JNull = False"
| "truthy (JBool b) = b"
| "truthy (JInt n) = (n \<noteq> 0)"
| "truthy (JFloat x) = (x AND 0x7FFFFFFFFFFFFFFF \<noteq> 0)"
| "truthy (JString t) = (t \<noteq> [])"
| "truthy (JArray xs) = (xs \<noteq> [])"
| "truthy (JObject kvs) = (kvs \<noteq> [])"

text \<open>\<^verbatim>\<open>v.get(key, default)\<close>: only a \<^verbatim>\<open>dict\<close> has the method.\<close>

fun py_get :: "json \<Rightarrow> string \<Rightarrow> json \<Rightarrow> error + json" where
  "py_get (JObject kvs) key dflt = Inr (case map_of kvs key of None \<Rightarrow> dflt | Some v \<Rightarrow> v)"
| "py_get _ key dflt = Inl (AttributeError ''get'')"

text \<open>\<^verbatim>\<open>len(v)\<close>.\<close>

fun py_len :: "json \<Rightarrow> error + nat" where
  "py_len (JArray xs) = Inr (length xs)"
| "py_len (JObject kvs) = Inr (length (remdups (map fst kvs)))"
| "py_len (JString t) = Inr (length t)"
| "py_len _ = Inl (TypeError ''len'')"

text \<open>The items a \<^verbatim>\<open>for\<close> loop takes from \<open>v\<close>: a \<^verbatim>\<open>dict\<close> gives its keys, a \<^verbatim>\<open>str\<close> its characters.\<close>

fun py_iter :: "json \<Rightarrow> error + json list" where
  "py_iter (JArray xs) = Inr xs"
| "py_iter (JObject kvs) = Inr (map JString (remdups (map fst kvs)))"
| "py_iter (JString t) = Inr (map (\<lambda>c. JString [c]) t)"
| "py_iter _ = Inl (TypeError ''iter'')"

text \<open>
  \<^verbatim>\<open>v[:n]\<close>: a \<^verbatim>\<open>str\<close> or a \<^verbatim>\<open>list\<close> gives its first \<open>n\<close> items, every other value
  raises (a \<^verbatim>\<open>TypeError\<close>; for a \<^verbatim>\<open>dict\<close> a \<^verbatim>\<open>KeyError\<close> from Python 3.12 on).
\<close>

fun py_slice_to :: "nat \<Rightarrow> json \<Rightarrow> error + json" where
  "py_slice_to n (JString t) = Inr (JString (take n t))"
| "py_slice_to n (JArray xs) = Inr (JArray (take n xs))"
| "py_slice_to n _ = Inl (TypeError ''slice'')"

subsection \<open>Normalisation and the report\<close>

text \<open>Lines 105 to 109: the records of the parsed response.\<close>

definition normalize_posts :: "json \<Rightarrow> error + json" where
  "normalize_posts data =
     (case data of
        JArray xs \<Rightarrow> Inr (JArray xs)
      | _ \<Rightarrow> py_get data ''posts'' (JArray []))"

definition field_line :: "string \<Rightarrow> string \<Rightarrow> json \<Rightarrow> error + line" where
  "field_line label key post =
     (case py_get post key (JString ''N/A'') of
        Inl e \<Rightarrow> Inl e
      | Inr v \<Rightarrow> Inr [Lit label, fmt v])"

text \<open>
  Lines 114 to 119: the heading and the five fields of one post; the first
  \<^verbatim>\<open>post.get\<close> that raises ends the printing.
\<close>

fun print_fields :: "(string \<times> string) list \<Rightarrow> json \<Rightarrow> state \<Rightarrow> (error + unit) \<times> state" where
  "print_fields [] post s = (Inr (), s)"
| "print_fields ((label, key) # rest) post s =
     (case field_line label key post of
        Inl e \<Rightarrow> (Inl e, s)
      | Inr l \<Rightarrow> print_fields rest post (print l s))"

definition post_fields :: "(string \<times> string) list" where
  "post_fields =
     [(''Title: '', ''title''), (''Author: '', ''author''), (''Upvotes: '', ''upvotes''),
      (''Comments: '', ''comments_count''), (''Posted: '', ''time_posted'')]"

definition print_post :: "nat \<Rightarrow> json \<Rightarrow> state \<Rightarrow> (error + unit) \<times> state" where
  "print_post i post s0 =
     (let s1 = print [Lit ''--- Post '', PyStr (JInt (int i)), Lit '' ---''] s0 in
      case print_fields post_fields post s1 of
        (Inl e, s2) \<Rightarrow> (Inl e, s2)
      | (Inr _, s2) \<Rightarrow>
          (case py_get post ''content_preview'' JNull of
             Inl e \<Rightarrow> (Inl e, s2)
           | Inr preview \<Rightarrow>
               if truthy preview then
                 (case py_slice_to 100 preview of
                    Inl e \<Rightarrow> (Inl e, s2)
                  | Inr v \<Rightarrow> (Inr (), print [] (print [Lit ''Preview: '', fmt v, Lit ''...''] s2)))
               else (Inr (), print [] s2)))"

text \<open>Lines 113 to 122: \<^verbatim>\<open>for i, post in enumerate(posts, 1)\<close>.\<close>

fun print_posts :: "nat \<Rightarrow> json list \<Rightarrow> state \<Rightarrow> (error + unit) \<times> state" where
  "print_posts i [] s = (Inr (), s)"
| "print_posts i (post # rest) s =
     (case print_post i post s of
        (Inl e, s') \<Rightarrow> (Inl e, s')
      | (Inr _, s') \<Rightarrow> print_posts (Suc i) rest s')"

text \<open>Lines 105 to 127, after \<^verbatim>\<open>json.loads\<close> has returned \<open>data\<close>.\<close>

definition report_posts :: "world \<Rightarrow> json \<Rightarrow> state \<Rightarrow> (error + unit) \<times> state" where
  "report_posts w data s0 =
     (case normalize_posts data of
        Inl e \<Rightarrow> (Inl e, s0)
      | Inr posts \<Rightarrow>
          (case py_len posts of
             Inl e \<Rightarrow> (Inl e, s0)
           | Inr n \<Rightarrow>
               (let s1 = print [Lit [CHR 0x0A], Lit ''Extracted '', PyStr (JInt (int n)),
                                Lit '' posts:'', Lit [CHR 0x0A]] s0 in
                case py_iter posts of
                  Inl e \<Rightarrow> (Inl e, s1)
                | Inr items \<Rightarrow>
                    (case print_posts 1 items s1 of
                       (Inl e, s2) \<Rightarrow> (Inl e, s2)
                     | (Inr _, s2) \<Rightarrow>
                         (case open_w w ''reddit_posts.json'' of
                            Some msg \<Rightarrow> (Inl (OSError msg), s2)
                          | None \<Rightarrow>
                              (let s3 = write_file ''reddit_posts.json''
                                          (JsonDump (JObject [(''posts'', posts)]) 2) s2 in
                               (Inr (), print [Lit ''Data saved to reddit_posts.json''] s3)))))))"

text \<open>Lines 90 to 136: the body of the \<^verbatim>\<open>async with\<close> block.\<close>

definition reddit_body :: "world \<Rightarrow> string \<Rightarrow> state \<Rightarrow> (error + unit) \<times> state" where
  "reddit_body w gemini_api_key s0 =
     (let s1 = print [Lit ''Crawling r/internships...''] s0;
          s2 = record_call (Arun reddit_url (reddit_run_config gemini_api_key)) s1 in
      case arun w reddit_url (reddit_run_config gemini_api_key) of
        Inl msg \<Rightarrow> (Inl (CrawlerError msg), s2)
      | Inr result \<Rightarrow>
          if success result then
            (let s3 = print [Lit (CHR 0x0A # ''Crawl successful!'')] s2;
                 s4 = print [Lit ''Status code: '', PyStr (opt_int (status_code result))] s3 in
             if \<not> falsy_str (extracted_content result) then
               (let content = the (extracted_content result) in
                case json_loads w content of
                  Inr data \<Rightarrow> report_posts w data s4
                | Inl msg \<Rightarrow>
                    (Inr (), print [Lit ''Raw content: '', Lit (take 500 content)]
                               (print [Lit ''Error parsing extracted content: '', Lit msg] s4)))
             else
               (Inr (), print [Lit (''Raw markdown (first 1000 chars):'' @ [CHR 0x0A]),
                               Lit (if falsy_str (markdown result) then ''No markdown''
                                    else take 1000 (the (markdown result)))]
                          (print [Lit ''No content extracted by LLM''] s4)))
          else
            (Inr (), print [Lit ''Crawl failed: '', fmt (opt_str (error_message result))] s2))"

definition scrape_reddit_internship :: "world \<Rightarrow> state \<Rightarrow> (error + unit) \<times> state" where
  "scrape_reddit_internship w s =
     (if falsy_str (getenv_GEMINI_API_KEY w) then
        (Inl (ValueError ''GEMINI_API_KEY not found in environment variables. Please set it in .env file.''), s)
      else
        async_with_crawler w reddit_browser_config
          (reddit_body w (the (getenv_GEMINI_API_KEY w))) s)"

section \<open>Vocabulary of the properties\<close>

text \<open>How often the browser was closed, and the calls a run added.\<close>

definition releases :: "state \<Rightarrow> nat" where
  "releases s = length (filter (\<lambda>c. c = BrowserClose) (calls s))"

definition new_calls :: "state \<Rightarrow> state \<Rightarrow> call list" where
  "new_calls s s' = drop (length (calls s)) (calls s')"

fun started_with :: "call \<Rightarrow> browser_config option" where
  "started_with (BrowserStart c) = Some c"
| "started_with _ = None"

text \<open>The configurations with which a run started a browser.\<close>

definition starts :: "state \<Rightarrow> state \<Rightarrow> browser_config list" where
  "starts s s' = List.map_filter started_with (new_calls s s')"

text \<open>
  An absolute URL in its parts, and the text it stands for. The host is a
  registered name or an IPv4 address; \<open>rest\<close> is the path, query and fragment.
\<close>

record url_parts =
  scheme :: string
  userinfo :: "string option"
  host :: string
  port :: "string option"
  rest :: string

definition authority :: "url_parts \<Rightarrow> string" where
  "authority u =
     (case userinfo u of None \<Rightarrow> [] | Some i \<Rightarrow> i @ ''@'') @ host u @
     (case port u of None \<Rightarrow> [] | Some p \<Rightarrow> '':'' @ p)"

definition render_url :: "url_parts \<Rightarrow> string" where
  "render_url u = scheme u @ ''://'' @ authority u @ rest u"

definition url_char :: "char \<Rightarrow> bool" where
  "url_char c = ((of_char c :: nat) > 32 \<and> (of_char c :: nat) < 127)"

definition authority_char :: "char \<Rightarrow> bool" where
  "authority_char c =
     (url_char c \<and> c \<noteq> CHR ''/'' \<and> c \<noteq> CHR ''?'' \<and> c \<noteq> CHR ''#'' \<and> c \<noteq> CHR ''['' \<and> c \<noteq> CHR '']'')"

definition host_char :: "char \<Rightarrow> bool" where
  "host_char c = (authority_char c \<and> c \<noteq> CHR ''@'' \<and> c \<noteq> CHR '':'')"

definition starts_rest :: "string \<Rightarrow> bool" where
  "starts_rest r =
     (case r of [] \<Rightarrow> True | c # _ \<Rightarrow> c = CHR ''/'' \<or> c = CHR ''?'' \<or> c = CHR ''#'')"

definition valid_url :: "url_parts \<Rightarrow> bool" where
  "valid_url u =
     (scheme u \<noteq> [] \<and> is_alpha (hd (scheme u)) \<and> list_all scheme_char (scheme u) \<and>
      host u \<noteq> [] \<and> list_all host_char (host u) \<and> list_all authority_char (authority u) \<and>
      list_all url_char (rest u) \<and> starts_rest (rest u))"

text \<open>
  A record that the report of lines 113 to 122 prints without raising: an
  object whose \<^verbatim>\<open>content_preview\<close> is absent, false, a string or a list.
\<close>

fun sliceable :: "json \<Rightarrow> bool" where
  "sliceable (JString t) = True"
| "sliceable (JArray xs) = True"
| "sliceable _ = False"

fun printable_post :: "json \<Rightarrow> bool" where
  "printable_post (JObject kvs) =
     (case map_of kvs ''content_preview'' of
        None \<Rightarrow> True
      | Some v \<Rightarrow> if truthy v then sliceable v else True)"
| "printable_post _ = False"

subsection \<open>Example runs\<close>

definition fresh :: state where
  "fresh = \<lparr>stdout = [], files = Map.empty, calls = []\<rparr>"

text \<open>
  A world in which the browser starts, every file opens, the crawl answers
  \<open>answer\<close> and \<^verbatim>\<open>json.loads\<close> answers \<open>parsed\<close>.
\<close>

definition example_world :: "string option \<Rightarrow> string + crawl_result \<Rightarrow> string + json \<Rightarrow> world" where
  "example_world key answer parsed =
     \<lparr>getenv_GEMINI_API_KEY = key, browser_start = (\<lambda>_. None), arun = (\<lambda>_ _. answer),
      json_loads = (\<lambda>_. parsed), open_w = (\<lambda>_. None), netloc_valid = (\<lambda>_. True)\<rparr>"

definition page :: "string option \<Rightarrow> string option \<Rightarrow> crawl_result" where
  "page md extracted =
     \<lparr>success = True, status_code = Some 200, markdown = md, extracted_content = extracted,
      error_message = None\<rparr>"

definition failed_page :: crawl_result where
  "failed_page =
     \<lparr>success = False, status_code = None, markdown = None, extracted_content = None,
      error_message = Some ''net::ERR_NAME_NOT_RESOLVED''\<rparr>"

text \<open>The crawl succeeds and the model's answer is not JSON.\<close>

definition world_bad_json :: world where
  "world_bad_json =
     example_world (Some ''key'') (Inr (page (Some ''# Page'') (Some ''not json'')))
       (Inl ''Expecting value: line 1 column 1 (char 0)'')"

text \<open>The model answers \<^verbatim>\<open>42\<close>, \<^verbatim>\<open>[1]\<close> and \<^verbatim>\<open>{"posts": [{"title": "A", "author": "B"}]}\<close>.\<close>

definition world_scalar :: world where
  "world_scalar =
     example_world (Some ''key'') (Inr (page (Some ''# Page'') (Some ''42''))) (Inr (JInt 42))"

definition world_number_list :: world where
  "world_number_list =
     example_world (Some ''key'') (Inr (page (Some ''# Page'') (Some ''[1]'')))
       (Inr (JArray [JInt 1]))"

definition post_AB :: json where
  "post_AB = JObject [(''title'', JString ''A''), (''author'', JString ''B'')]"

definition world_posts :: world where
  "world_posts =
     example_world (Some ''key'')
       (Inr (page (Some ''# Page'') (Some ''{\"posts\": [{\"title\": \"A\", \"author\": \"B\"}]}'')))
       (Inr (JObject [(''posts'', JArray [post_AB])]))"

definition world_no_key :: world where
  "world_no_key = example_world None (Inr failed_page) (Inl [])"

definition world_empty_page :: world where
  "world_empty_page = example_world None (Inr (page None None)) (Inl [])"

definition world_failed :: world where
  "world_failed = example_world None (Inr failed_page) (Inl [])"

text \<open>The crawl succeeds on a page whose markdown is \<^verbatim>\<open># Hello\<close>.\<close>

definition world_hello :: world where
  "world_hello = example_world None (Inr (page (Some ''# Hello'') None)) (Inl [])"

definition url_example :: url_parts where
  "url_example = \<lparr>scheme = ''https'', userinfo = None, host = ''example.com'', port = None, rest = []\<rparr>"

definition url_with_port :: url_parts where
  "url_with_port = url_example\<lparr>port := Some ''8080''\<rparr>"

section \<open>The state after each step\<close>

lemma print_simps [simp]:
  "stdout (print l s) = stdout s @ [l]" "files (print l s) = files s" "calls (print l s) = calls s"
  by (simp_all add: print_def)

lemma record_call_simps [simp]:
  "stdout (record_call c s) = stdout s" "files (record_call c s) = files s"
  "calls (record_call c s) = calls s @ [c]"
  by (simp_all add: record_call_def)

lemma write_file_simps [simp]:
  "stdout (write_file p c s) = stdout s" "files (write_file p c s) = (files s)(p \<mapsto> c)"
  "calls (write_file p c s) = calls s"
  by (simp_all add: write_file_def)

lemma scrape_body_calls:
  "calls (snd (scrape_body w url out s)) = calls s @ [Arun url scrape_run_config]"
  by (simp add: scrape_body_def Let_def split: sum.splits option.splits)

lemma print_fields_calls: "calls (snd (print_fields fs post s)) = calls s"
  by (induction fs post s rule: print_fields.induct) (auto split: sum.splits)

lemma print_post_calls: "calls (snd (print_post i post s)) = calls s"
proof -
  let ?s1 = "print [Lit ''--- Post '', PyStr (JInt (int i)), Lit '' ---''] s"
  obtain r s2 where pf: "print_fields post_fields post ?s1 = (r, s2)"
    by (cases "print_fields post_fields post ?s1")
  have "calls s2 = calls s" using print_fields_calls [of post_fields post ?s1] pf by simp
  then show ?thesis
    by (simp add: print_post_def Let_def pf split: sum.splits)
qed

lemma print_posts_calls: "calls (snd (print_posts i posts s)) = calls s"
proof (induction posts arbitrary: i s)
  case Nil
  show ?case by simp
next
  case (Cons p ps)
  obtain r s' where step: "print_post i p s = (r, s')" by (cases "print_post i p s")
  then have "calls s' = calls s" using print_post_calls [of i p s] by simp
  with step Cons show ?case by (cases r) simp_all
qed


lemma report_posts_calls: "calls (snd (report_posts w data s)) = calls s"
proof (cases "normalize_posts data")
  case (Inl e)
  then show ?thesis by (simp add: report_posts_def)
next
  case (Inr posts)
  note np = this
  show ?thesis
  proof (cases "py_len posts")
    case (Inl e)
    with np show ?thesis by (simp add: report_posts_def)
  next
    case (Inr n)
    note pl = this
    let ?s1 = "print [Lit [CHR 0x0A], Lit ''Extracted '', PyStr (JInt (int n)),
                                Lit '' posts:'', Lit [CHR 0x0A]] s"
    show ?thesis
    proof (cases "py_iter posts")
      case (Inl e)
      with np pl show ?thesis by (simp add: report_posts_def)
    next
      case (Inr items)
      obtain r s2 where pp: "print_posts 1 items ?s1 = (r, s2)"
        by (cases "print_posts 1 items ?s1")
      have "calls s2 = calls s" using print_posts_calls [of 1 items ?s1] pp by simp
      with np pl Inr pp show ?thesis
        by (simp add: report_posts_def Let_def split: sum.splits option.splits)
    qed
  qed
qed

lemma reddit_body_calls:
  "calls (snd (reddit_body w k s)) = calls s @ [Arun reddit_url (reddit_run_config k)]"
  by (simp add: reddit_body_def Let_def report_posts_calls split: sum.splits)

lemma async_with_calls:
  assumes "browser_start w cfg = None"
    and "\<And>s1. calls (snd (body s1)) = calls s1 @ mid"
  shows "calls (snd (async_with_crawler w cfg body s)) = calls s @ BrowserStart cfg # mid @ [BrowserClose]"
proof -
  let ?s1 = "record_call (BrowserStart cfg) s"
  obtain r s2 where b: "body ?s1 = (r, s2)" by (cases "body ?s1")
  have "calls s2 = calls ?s1 @ mid" using assms(2) [of ?s1] b by simp
  with assms(1) b show ?thesis by (simp add: async_with_crawler_def Let_def)
qed

lemmas example_defs = example_world_def page_def failed_page_def fresh_def

section \<open>The browser session\<close>

text \<open>
  Claim C4. On every exit path of a run (success, navigation failure,
  extraction failure, persistence failure) the browser session is released
  exactly once before control returns. In both scripts, once the browser has
  started, whatever the crawl answers or raises, whatever the parser and the
  file system do, the run adds exactly one \<open>BrowserClose\<close> and it is the last
  call made. (In \<^verbatim>\<open>scrape_reddit.py\<close> a browser is started only when the
  credential is set.)
\<close>

theorem browser_released_exactly_once:
  "(browser_start w scrape_browser_config = None \<longrightarrow>
      releases (snd (scrape_to_markdown w url out s)) = releases s + 1 \<and>
      last (calls (snd (scrape_to_markdown w url out s))) = BrowserClose) \<and>
   (browser_start w reddit_browser_config = None \<and> \<not> falsy_str (getenv_GEMINI_API_KEY w) \<longrightarrow>
      releases (snd (scrape_reddit_internship w s)) = releases s + 1 \<and>
      last (calls (snd (scrape_reddit_internship w s))) = BrowserClose)"
proof (intro conjI impI)
  assume b: "browser_start w scrape_browser_config = None"
  have c: "calls (snd (scrape_to_markdown w url out s)) =
      calls s @ BrowserStart scrape_browser_config # [Arun url scrape_run_config] @ [BrowserClose]"
    unfolding scrape_to_markdown_def by (rule async_with_calls [OF b]) (rule scrape_body_calls)
  show "releases (snd (scrape_to_markdown w url out s)) = releases s + 1"
    by (simp add: releases_def c)
  show "last (calls (snd (scrape_to_markdown w url out s))) = BrowserClose"
    by (simp add: c)
next
  assume a: "browser_start w reddit_browser_config = None \<and> \<not> falsy_str (getenv_GEMINI_API_KEY w)"
  then have b: "browser_start w reddit_browser_config = None" by simp
  let ?k = "the (getenv_GEMINI_API_KEY w)"
  have "calls (snd (async_with_crawler w reddit_browser_config (reddit_body w ?k) s)) =
      calls s @ BrowserStart reddit_browser_config # [Arun reddit_url (reddit_run_config ?k)] @ [BrowserClose]"
    by (rule async_with_calls [OF b]) (rule reddit_body_calls)
  with a have c: "calls (snd (scrape_reddit_internship w s)) =
      calls s @ BrowserStart reddit_browser_config # [Arun reddit_url (reddit_run_config ?k)] @ [BrowserClose]"
    by (simp add: scrape_reddit_internship_def)
  show "releases (snd (scrape_reddit_internship w s)) = releases s + 1"
    by (simp add: releases_def c)
  show "last (calls (snd (scrape_reddit_internship w s))) = BrowserClose"
    by (simp add: c)
qed

theorem browser_released_exactly_once_witness:
  "(browser_start world_failed scrape_browser_config = None \<and>
      releases (snd (scrape_to_markdown world_failed ''https://example.com'' None fresh)) = 1 \<and>
      last (calls (snd (scrape_to_markdown world_failed ''https://example.com'' None fresh))) = BrowserClose) \<and>
   (browser_start world_number_list reddit_browser_config = None \<and>
      \<not> falsy_str (getenv_GEMINI_API_KEY world_number_list) \<and>
      (\<exists>e. fst (scrape_reddit_internship world_number_list fresh) = Inl e) \<and>
      releases (snd (scrape_reddit_internship world_number_list fresh)) = 1 \<and>
      last (calls (snd (scrape_reddit_internship world_number_list fresh))) = BrowserClose)"
  using browser_released_exactly_once [of world_failed "''https://example.com''" None fresh]
    browser_released_exactly_once [of world_number_list "''https://example.com''" None fresh]
  by (simp add: world_failed_def world_number_list_def example_defs releases_def falsy_str_def
      scrape_reddit_internship_def async_with_crawler_def reddit_body_def report_posts_def
      normalize_posts_def print_post_def post_fields_def field_line_def record_call_def print_def)

section \<open>The credential\<close>

text \<open>
  Claim C3. When \<^verbatim>\<open>GEMINI_API_KEY\<close> is absent from the environment (or empty),
  \<^verbatim>\<open>scrape_reddit_internship\<close> raises the configuration error and leaves the
  state as it was: no browser was started, no crawl was made, nothing was
  printed or written.
\<close>

theorem missing_credential_raises_first:
  assumes "getenv_GEMINI_API_KEY w = None \<or> getenv_GEMINI_API_KEY w = Some []"
  shows "scrape_reddit_internship w s =
     (Inl (ValueError ''GEMINI_API_KEY not found in environment variables. Please set it in .env file.''), s)"
  using assms by (auto simp: scrape_reddit_internship_def falsy_str_def)

theorem missing_credential_raises_first_witness:
  "getenv_GEMINI_API_KEY world_no_key = None \<and>
   fst (scrape_reddit_internship world_no_key fresh) =
     Inl (ValueError ''GEMINI_API_KEY not found in environment variables. Please set it in .env file.'') \<and>
   calls (snd (scrape_reddit_internship world_no_key fresh)) = []"
  using missing_credential_raises_first [of world_no_key fresh]
  by (simp add: world_no_key_def example_defs)

section \<open>The exit status of \<^verbatim>\<open>scrape.py\<close>\<close>



section \<open>The output of \<^verbatim>\<open>scrape.py\<close>\<close>

lemma scrape_success_run:
  assumes "browser_start w scrape_browser_config = None"
    and "arun w url scrape_run_config = Inr r" and "success r"
    and "(if falsy_str out then default_output_file w url else Inr (the out)) = Inr path"
    and "open_w w path = None"
  shows "fst (scrape_to_markdown w url out s) =
           Inr (Some (if falsy_str (markdown r) then [] else the (markdown r)))"
    and "files (snd (scrape_to_markdown w url out s)) =
           (files s)(path \<mapsto> Text (if falsy_str (markdown r) then [] else the (markdown r)))"
  using assms
  by (simp_all add: scrape_to_markdown_def async_with_crawler_def scrape_body_def Let_def)

text \<open>
  Claim C8. When a successful crawl yields missing or empty markdown, the
  content is the empty string: \<^verbatim>\<open>scrape_to_markdown\<close> writes the empty text to
  the output file and returns it, no error arises.
\<close>

theorem empty_markdown_is_written:
  assumes "browser_start w scrape_browser_config = None"
    and "arun w url scrape_run_config = Inr r" and "success r"
    and "markdown r = None \<or> markdown r = Some []"
    and "(if falsy_str out then default_output_file w url else Inr (the out)) = Inr path"
    and "open_w w path = None"
  shows "fst (scrape_to_markdown w url out s) = Inr (Some []) \<and>
         files (snd (scrape_to_markdown w url out s)) = (files s)(path \<mapsto> Text [])"
proof -
  from assms(4) have "falsy_str (markdown r)" by (auto simp: falsy_str_def)
  with scrape_success_run [OF assms(1-3) assms(5,6), of s] show ?thesis by simp
qed

theorem empty_markdown_is_written_witness:
  "browser_start world_empty_page scrape_browser_config = None \<and>
   arun world_empty_page ''https://example.com'' scrape_run_config = Inr (page None None) \<and>
   success (page None None) \<and> markdown (page None None) = None \<and>
   default_output_file world_empty_page ''https://example.com'' = Inr ''example_com.md'' \<and>
   open_w world_empty_page ''example_com.md'' = None \<and>
   fst (scrape_to_markdown world_empty_page ''https://example.com'' None fresh) = Inr (Some []) \<and>
   files (snd (scrape_to_markdown world_empty_page ''https://example.com'' None fresh)) =
     [''example_com.md'' \<mapsto> Text []]"
proof -
  have d: "default_output_file world_empty_page ''https://example.com'' = Inr ''example_com.md''"
    by (simp add: default_output_file_def urlparse_netloc_def lstrip_c0_def remove_unsafe_def
        strip_scheme_def splitnetloc_def is_alpha_def is_digit_def scheme_char_def is_ascii_def
        replace_dots_def Let_def)
  have w: "browser_start world_empty_page scrape_browser_config = None"
    "arun world_empty_page ''https://example.com'' scrape_run_config = Inr (page None None)"
    "open_w world_empty_page ''example_com.md'' = None"
    by (simp_all add: world_empty_page_def example_world_def)
  have p: "success (page None None)" "markdown (page None None) = None"
    by (simp_all add: page_def)
  from empty_markdown_is_written [of world_empty_page "''https://example.com''" "page None None"
      None "''example_com.md''" fresh] d w p
  show ?thesis by (simp add: falsy_str_def fresh_def)
qed

text \<open>
  With such a crawl the only exceptions left are those of the file name
  (\<^verbatim>\<open>urlparse\<close>) and of \<^verbatim>\<open>open\<close>; none comes from the content.
\<close>

lemma empty_markdown_errors:
  assumes "browser_start w scrape_browser_config = None"
    and "arun w url scrape_run_config = Inr r" and "success r"
    and "markdown r = None \<or> markdown r = Some []"
  shows "fst (scrape_to_markdown w url out s) = Inr (Some []) \<or>
         (\<exists>m. fst (scrape_to_markdown w url out s) = Inl (ValueError m)) \<or>
         (\<exists>m. fst (scrape_to_markdown w url out s) = Inl (OSError m))"
proof -
  from assms(4) have f: "falsy_str (markdown r)" by (auto simp: falsy_str_def)
  have d: "default_output_file w url = Inl e \<Longrightarrow> \<exists>m. e = ValueError m" for e
    by (auto simp: default_output_file_def urlparse_netloc_def check_netloc_def Let_def
        split: sum.splits if_splits)
  show ?thesis
    using assms(1-3) f d
    by (auto simp: scrape_to_markdown_def async_with_crawler_def scrape_body_def Let_def
        split: sum.splits option.splits)
qed

lemma markdown_content: "(if falsy_str x then [] else the x) = (case x of None \<Rightarrow> [] | Some t \<Rightarrow> t)"
    for x :: "string option"
    by (cases x) (simp_all add: falsy_str_def)

lemma run_failed:
  assumes "browser_start w scrape_browser_config = None"
    and "arun w url scrape_run_config = Inr r" and "\<not> success r"
  shows "fst (scrape_to_markdown w url out s) = Inr None"
    and "files (snd (scrape_to_markdown w url out s)) = files s"
  using assms
  by (simp_all add: scrape_to_markdown_def async_with_crawler_def scrape_body_def Let_def)

lemma body_cases:
  "(\<exists>e. fst (scrape_body w url out s) = Inl e \<and> files (snd (scrape_body w url out s)) = files s) \<or>
   (\<exists>r. arun w url scrape_run_config = Inr r \<and> \<not> success r \<and>
        fst (scrape_body w url out s) = Inr None \<and> files (snd (scrape_body w url out s)) = files s) \<or>
   (\<exists>r path. arun w url scrape_run_config = Inr r \<and> success r \<and>
        fst (scrape_body w url out s) = Inr (Some (case markdown r of None \<Rightarrow> [] | Some t \<Rightarrow> t)) \<and>
        files (snd (scrape_body w url out s)) =
          (files s)(path \<mapsto> Text (case markdown r of None \<Rightarrow> [] | Some t \<Rightarrow> t)))"
proof (cases "arun w url scrape_run_config")
  case (Inl msg)
  then show ?thesis by (simp add: scrape_body_def Let_def)
next
  case (Inr r)
  note ar = this
  show ?thesis
  proof (cases "success r")
    case False
    with ar show ?thesis by (simp add: scrape_body_def Let_def)
  next
    case True
    note su = this
    show ?thesis
    proof (cases "if falsy_str out then default_output_file w url else Inr (the out)")
      case (Inl e)
      with ar su show ?thesis by (simp add: scrape_body_def Let_def)
    next
      case (Inr path)
      note pa = this
      show ?thesis
      proof (cases "open_w w path")
        case (Some msg)
        with ar su pa show ?thesis by (simp add: scrape_body_def Let_def)
      next
        case None
        with ar su pa show ?thesis
          by (simp add: scrape_body_def Let_def markdown_content) blast
      qed
    qed
  qed
qed


lemma run_cases:
  "(\<exists>e. fst (scrape_to_markdown w url out s) = Inl e \<and>
        files (snd (scrape_to_markdown w url out s)) = files s) \<or>
   (\<exists>r. arun w url scrape_run_config = Inr r \<and> \<not> success r \<and>
        fst (scrape_to_markdown w url out s) = Inr None \<and>
        files (snd (scrape_to_markdown w url out s)) = files s) \<or>
   (\<exists>r path. arun w url scrape_run_config = Inr r \<and> success r \<and>
        fst (scrape_to_markdown w url out s) =
          Inr (Some (case markdown r of None \<Rightarrow> [] | Some t \<Rightarrow> t)) \<and>
        files (snd (scrape_to_markdown w url out s)) =
          (files s)(path \<mapsto> Text (case markdown r of None \<Rightarrow> [] | Some t \<Rightarrow> t)))"
proof (cases "browser_start w scrape_browser_config")
  case (Some msg)
  then show ?thesis by (simp add: scrape_to_markdown_def async_with_crawler_def)
next
  case None
  let ?s1 = "record_call (BrowserStart scrape_browser_config) s"
  obtain res s2 where b: "scrape_body w url out ?s1 = (res, s2)"
    by (cases "scrape_body w url out ?s1")
  have r: "fst (scrape_to_markdown w url out s) = res"
    "files (snd (scrape_to_markdown w url out s)) = files s2"
    using None b by (simp_all add: scrape_to_markdown_def async_with_crawler_def)
  from body_cases [of w url out ?s1] b show ?thesis
    unfolding r by simp
qed

text \<open>
  Claim C10. When the crawl reports failure, \<^verbatim>\<open>scrape_to_markdown\<close> returns
  \<^verbatim>\<open>None\<close> and the files are as they were. When the crawl reports success
  (and the output file has a name and opens), it writes the page's markdown
  (the empty string when there is none) to that file, changes no other file,
  and returns the string it wrote. Conversely a returned string is the
  markdown of a successful crawl and the text of the one file written, a
  returned \<^verbatim>\<open>None\<close> comes from a failed crawl only, and a run that raises
  leaves the files as they were.
\<close>

theorem failed_crawl_writes_nothing:
  "(browser_start w scrape_browser_config = None \<and>
    arun w url scrape_run_config = Inr r \<and> \<not> success r \<longrightarrow>
      fst (scrape_to_markdown w url out s) = Inr None \<and>
      files (snd (scrape_to_markdown w url out s)) = files s) \<and>
   (browser_start w scrape_browser_config = None \<and>
    arun w url scrape_run_config = Inr r \<and> success r \<and>
    (if falsy_str out then default_output_file w url else Inr (the out)) = Inr path \<and>
    open_w w path = None \<longrightarrow>
      fst (scrape_to_markdown w url out s) =
        Inr (Some (case markdown r of None \<Rightarrow> [] | Some t \<Rightarrow> t)) \<and>
      files (snd (scrape_to_markdown w url out s)) =
        (files s)(path \<mapsto> Text (case markdown r of None \<Rightarrow> [] | Some t \<Rightarrow> t))) \<and>
   (fst (scrape_to_markdown w url out s) = Inr (Some m) \<longrightarrow>
      (\<exists>r' path'. arun w url scrape_run_config = Inr r' \<and> success r' \<and>
         m = (case markdown r' of None \<Rightarrow> [] | Some t \<Rightarrow> t) \<and>
         files (snd (scrape_to_markdown w url out s)) = (files s)(path' \<mapsto> Text m))) \<and>
   (fst (scrape_to_markdown w url out s) = Inr None \<longrightarrow>
      (\<exists>r'. arun w url scrape_run_config = Inr r' \<and> \<not> success r') \<and>
      files (snd (scrape_to_markdown w url out s)) = files s) \<and>
   (fst (scrape_to_markdown w url out s) = Inl e \<longrightarrow>
      files (snd (scrape_to_markdown w url out s)) = files s)"
proof (intro conjI impI)
  assume "browser_start w scrape_browser_config = None \<and>
    arun w url scrape_run_config = Inr r \<and> \<not> success r"
  then show "fst (scrape_to_markdown w url out s) = Inr None"
    and "files (snd (scrape_to_markdown w url out s)) = files s"
    using run_failed [of w url r out s] by simp_all
next
  assume a: "browser_start w scrape_browser_config = None \<and>
    arun w url scrape_run_config = Inr r \<and> success r \<and>
    (if falsy_str out then default_output_file w url else Inr (the out)) = Inr path \<and>
    open_w w path = None"
  then show "fst (scrape_to_markdown w url out s) =
        Inr (Some (case markdown r of None \<Rightarrow> [] | Some t \<Rightarrow> t))"
    using scrape_success_run(1) [of w url r out path s] by (simp add: markdown_content)
  from a show "files (snd (scrape_to_markdown w url out s)) =
        (files s)(path \<mapsto> Text (case markdown r of None \<Rightarrow> [] | Some t \<Rightarrow> t))"
    using scrape_success_run(2) [of w url r out path s] by (simp add: markdown_content)
next
  assume "fst (scrape_to_markdown w url out s) = Inr (Some m)"
  with run_cases [of w url out s]
  show "\<exists>r' path'. arun w url scrape_run_config = Inr r' \<and> success r' \<and>
         m = (case markdown r' of None \<Rightarrow> [] | Some t \<Rightarrow> t) \<and>
         files (snd (scrape_to_markdown w url out s)) = (files s)(path' \<mapsto> Text m)"
    by auto
next
  assume n: "fst (scrape_to_markdown w url out s) = Inr None"
  with run_cases [of w url out s]
  show "\<exists>r'. arun w url scrape_run_config = Inr r' \<and> \<not> success r'" by auto
  from n run_cases [of w url out s]
  show "files (snd (scrape_to_markdown w url out s)) = files s" by auto
next
  assume "fst (scrape_to_markdown w url out s) = Inl e"
  with run_cases [of w url out s]
  show "files (snd (scrape_to_markdown w url out s)) = files s" by auto
qed

theorem failed_crawl_writes_nothing_witness:
  "(browser_start world_failed scrape_browser_config = None \<and>
    arun world_failed ''https://example.com'' scrape_run_config = Inr failed_page \<and>
    \<not> success failed_page \<and>
    fst (scrape_to_markdown world_failed ''https://example.com'' None fresh) = Inr None \<and>
    files (snd (scrape_to_markdown world_failed ''https://example.com'' None fresh)) = files fresh) \<and>
   (browser_start world_hello scrape_browser_config = None \<and>
    arun world_hello ''https://example.com'' scrape_run_config = Inr (page (Some ''# Hello'') None) \<and>
    success (page (Some ''# Hello'') None) \<and>
    open_w world_hello ''out.md'' = None \<and>
    fst (scrape_to_markdown world_hello ''https://example.com'' (Some ''out.md'') fresh) =
      Inr (Some ''# Hello'') \<and>
    files (snd (scrape_to_markdown world_hello ''https://example.com'' (Some ''out.md'') fresh)) =
      (files fresh)(''out.md'' \<mapsto> Text ''# Hello''))"
proof -
  have f: "browser_start world_failed scrape_browser_config = None"
    "arun world_failed ''https://example.com'' scrape_run_config = Inr failed_page"
    "\<not> success failed_page"
    by (simp_all add: world_failed_def example_world_def failed_page_def)
  have h: "browser_start world_hello scrape_browser_config = None"
    "arun world_hello ''https://example.com'' scrape_run_config = Inr (page (Some ''# Hello'') None)"
    "success (page (Some ''# Hello'') None)"
    "open_w world_hello ''out.md'' = None"
    "markdown (page (Some ''# Hello'') None) = Some ''# Hello''"
    "(if falsy_str (Some ''out.md'') then default_output_file world_hello ''https://example.com''
      else Inr (the (Some ''out.md''))) = Inr ''out.md''"
    by (simp_all add: world_hello_def example_world_def page_def falsy_str_def)
  have a: "fst (scrape_to_markdown world_failed ''https://example.com'' None fresh) = Inr None \<and>
      files (snd (scrape_to_markdown world_failed ''https://example.com'' None fresh)) = files fresh"
    using failed_crawl_writes_nothing
      [of world_failed "''https://example.com''" failed_page None fresh, THEN conjunct1] f
    by blast
  have b: "fst (scrape_to_markdown world_hello ''https://example.com'' (Some ''out.md'') fresh) =
        Inr (Some (case markdown (page (Some ''# Hello'') None) of None \<Rightarrow> [] | Some t \<Rightarrow> t)) \<and>
      files (snd (scrape_to_markdown world_hello ''https://example.com'' (Some ''out.md'') fresh)) =
        (files fresh)(''out.md'' \<mapsto>
           Text (case markdown (page (Some ''# Hello'') None) of None \<Rightarrow> [] | Some t \<Rightarrow> t))"
    using failed_crawl_writes_nothing
      [of world_hello "''https://example.com''" "page (Some ''# Hello'') None" "Some ''out.md''"
        fresh "''out.md''", THEN conjunct2, THEN conjunct1] h(1-4,6)
    by blast
  from a b f h(1-4) show ?thesis by (simp add: h(5))
qed

section \<open>Headless mode\<close>

lemma async_with_new_calls:
  assumes "\<And>s1. calls (snd (body s1)) = calls s1 @ mid"
  shows "new_calls s (snd (async_with_crawler w cfg body s)) =
     BrowserStart cfg # (if browser_start w cfg = None then mid @ [BrowserClose] else [])"
proof (cases "browser_start w cfg")
  case None
  from async_with_calls [OF None, of body mid s] assms show ?thesis
    by (simp add: new_calls_def None)
next
  case (Some msg)
  then show ?thesis by (simp add: async_with_crawler_def new_calls_def)
qed

text \<open>
  Claim C6, as the code has it. \<^verbatim>\<open>scrape.py\<close> starts its browser exactly once,
  with \<^verbatim>\<open>headless=True\<close>. \<^verbatim>\<open>scrape_reddit.py\<close> starts its browser (once, when the
  credential is set) with \<^verbatim>\<open>headless=False\<close>: the window is shown, as the
  comment on line 34 says.
\<close>

theorem headless_by_script:
  "starts s (snd (scrape_to_markdown w url out s)) = [scrape_browser_config] \<and>
   headless scrape_browser_config \<and>
   starts s (snd (scrape_reddit_internship w s)) =
     (if falsy_str (getenv_GEMINI_API_KEY w) then [] else [reddit_browser_config]) \<and>
   \<not> headless reddit_browser_config"
proof -
  have a: "new_calls s (snd (scrape_to_markdown w url out s)) =
      BrowserStart scrape_browser_config #
        (if browser_start w scrape_browser_config = None
         then [Arun url scrape_run_config] @ [BrowserClose] else [])"
    unfolding scrape_to_markdown_def by (rule async_with_new_calls) (rule scrape_body_calls)
  have b: "new_calls s (snd (async_with_crawler w reddit_browser_config (reddit_body w k) s)) =
      BrowserStart reddit_browser_config #
        (if browser_start w reddit_browser_config = None
         then [Arun reddit_url (reddit_run_config k)] @ [BrowserClose] else [])" for k
    by (rule async_with_new_calls) (rule reddit_body_calls)
  have c: "new_calls s s = []" by (simp add: new_calls_def)
  have "starts s (snd (scrape_to_markdown w url out s)) = [scrape_browser_config]"
    by (simp add: starts_def a List.map_filter_simps)
  moreover have "starts s (snd (scrape_reddit_internship w s)) =
     (if falsy_str (getenv_GEMINI_API_KEY w) then [] else [reddit_browser_config])"
    by (simp add: starts_def b c scrape_reddit_internship_def List.map_filter_simps)
  moreover have "headless scrape_browser_config" "\<not> headless reddit_browser_config"
    by (simp_all add: scrape_browser_config_def reddit_browser_config_def)
  ultimately show ?thesis by simp
qed

text \<open>
  Claim C6 as stated (both scripts start the browser headless) fails on a
  run of \<^verbatim>\<open>scrape_reddit.py\<close>.
\<close>

theorem reddit_browser_is_not_headless:
  "\<not> list_all headless (starts fresh (snd (scrape_reddit_internship world_bad_json fresh)))"
  by (simp add: starts_def new_calls_def world_bad_json_def example_defs
      scrape_reddit_internship_def falsy_str_def async_with_crawler_def reddit_body_def Let_def
      List.map_filter_simps reddit_browser_config_def)

section \<open>The default output file\<close>

lemma scheme_char_facts:
  assumes "scheme_char c"
  shows "c \<noteq> CHR '':''" and "(of_char c :: nat) > 32"
  using assms by (auto simp: scheme_char_def is_alpha_def is_digit_def Let_def)

lemma url_char_safe:
  assumes "url_char c"
  shows "\<not> (of_char c :: nat) \<le> 32" and "c \<noteq> CHR 0x09 \<and> c \<noteq> CHR 0x0D \<and> c \<noteq> CHR 0x0A"
    and "is_ascii c"
  using assms by (auto simp: url_char_def is_ascii_def)

lemma authority_char_facts:
  assumes "authority_char c"
  shows "url_char c" and "c \<noteq> CHR ''/'' \<and> c \<noteq> CHR ''?'' \<and> c \<noteq> CHR ''#''"
    and "c \<noteq> CHR ''[''" and "c \<noteq> CHR '']''"
  using assms by (auto simp: authority_char_def)

lemma scheme_char_url_char: "scheme_char c \<Longrightarrow> url_char c"
  by (auto simp: scheme_char_def is_alpha_def is_digit_def url_char_def Let_def)

lemma render_url_chars:
  assumes "valid_url u"
  shows "list_all url_char (render_url u)"
proof -
  from assms have "list_all scheme_char (scheme u)" "list_all authority_char (authority u)"
    "list_all url_char (rest u)" by (simp_all add: valid_url_def)
  then have "\<forall>c \<in> set (scheme u). url_char c" "\<forall>c \<in> set (authority u). url_char c"
    "\<forall>c \<in> set (rest u). url_char c"
    using scheme_char_url_char authority_char_facts(1) by (auto simp: list_all_iff)
  moreover have "url_char CHR '':''" "url_char CHR ''/''" by (simp_all add: url_char_def)
  ultimately show ?thesis
    by (auto simp: render_url_def list_all_iff)
qed

lemma lstrip_render:
  assumes "valid_url u"
  shows "remove_unsafe (lstrip_c0 (render_url u)) = render_url u"
proof -
  have all: "\<forall>c \<in> set (render_url u). url_char c"
    using render_url_chars [OF assms] by (simp add: list_all_iff)
  from assms obtain c cs where sc: "scheme u = c # cs" "scheme_char c"
    by (cases "scheme u") (auto simp: valid_url_def)
  then have "lstrip_c0 (render_url u) = render_url u"
    using scheme_char_facts(2) [of c] by (simp add: lstrip_c0_def render_url_def)
  moreover have "remove_unsafe (render_url u) = render_url u"
    unfolding remove_unsafe_def using all url_char_safe(2) by (intro filter_True) blast
  ultimately show ?thesis by simp
qed

lemma strip_scheme_render:
  assumes "valid_url u"
  shows "strip_scheme (render_url u) = ''//'' @ authority u @ rest u"
proof -
  from assms have s: "scheme u \<noteq> []" "is_alpha (hd (scheme u))" "list_all scheme_char (scheme u)"
    by (simp_all add: valid_url_def)
  have "\<forall>c \<in> set (scheme u). c \<noteq> CHR '':''"
    using s(3) scheme_char_facts(1) by (auto simp: list_all_iff)
  then have tw: "takeWhile (\<lambda>c. c \<noteq> CHR '':'') (render_url u) = scheme u"
    by (simp add: render_url_def takeWhile_tail)
  show ?thesis
    unfolding strip_scheme_def tw Let_def using s by (simp add: render_url_def)
qed

lemma splitnetloc_render:
  assumes "valid_url u"
  shows "splitnetloc (''//'' @ authority u @ rest u) = authority u"
proof -
  let ?P = "\<lambda>c. c \<noteq> CHR ''/'' \<and> c \<noteq> CHR ''?'' \<and> c \<noteq> CHR ''#''"
  from assms have a: "\<forall>c \<in> set (authority u). ?P c"
    using authority_char_facts(2) by (auto simp: valid_url_def list_all_iff)
  from assms have r: "starts_rest (rest u)" by (simp add: valid_url_def)
  have "takeWhile ?P (authority u @ rest u) = authority u"
  proof (cases "rest u")
    case Nil
    with a show ?thesis by (simp add: takeWhile_eq_all_conv)
  next
    case (Cons c cs)
    with r have "\<not> ?P c" by (auto simp: starts_rest_def)
    with a Cons show ?thesis by (simp add: takeWhile_tail)
  qed
  then show ?thesis by (simp add: splitnetloc_def)
qed

lemma urlparse_netloc_render:
  assumes "valid_url u"
  shows "urlparse_netloc w (render_url u) = Inr (authority u)"
proof -
  from assms have a: "list_all authority_char (authority u)" by (simp add: valid_url_def)
  have nb: "CHR ''['' \<notin> set (authority u)" "CHR '']'' \<notin> set (authority u)"
    using a authority_char_facts(3,4) by (auto simp: list_all_iff)
  have asc: "list_all is_ascii (authority u)"
    using a authority_char_facts(1) url_char_safe(3) by (auto simp: list_all_iff)
  show ?thesis
    unfolding urlparse_netloc_def lstrip_render [OF assms] strip_scheme_render [OF assms] Let_def
    using nb asc splitnetloc_render [OF assms] by simp
qed

lemma replace_dots_facts:
  "CHR ''.'' \<notin> set (replace_dots h)" "length (replace_dots h) = length h"
  by (auto simp: replace_dots_def)

lemma url_example_facts:
  "valid_url url_example" "valid_url url_with_port"
  "render_url url_example = ''https://example.com''"
  "render_url url_with_port = ''https://example.com:8080''"
  by (simp_all add: url_example_def url_with_port_def valid_url_def render_url_def authority_def
      is_alpha_def scheme_char_def is_digit_def host_char_def authority_char_def url_char_def
      starts_rest_def Let_def)

text \<open>
  Claim C5, as the code has it. For a valid URL with no user information and
  no port, the output file derived when none is given is the host with every
  dot replaced by an underscore, followed by \<^verbatim>\<open>.md\<close>; a successful run with no
  output file writes exactly that file. The name is a function of the URL
  and of nothing else.
\<close>

theorem default_file_of_host:
  assumes "valid_url u" and "userinfo u = None" and "port u = None"
  shows "default_output_file w (render_url u) = Inr (replace_dots (host u) @ ''.md'') \<and>
         CHR ''.'' \<notin> set (replace_dots (host u)) \<and>
         (falsy_str out \<and> browser_start w scrape_browser_config = None \<and>
          arun w (render_url u) scrape_run_config = Inr r \<and> success r \<and>
          open_w w (replace_dots (host u) @ ''.md'') = None \<longrightarrow>
            dom (files (snd (scrape_to_markdown w (render_url u) out s))) =
              insert (replace_dots (host u) @ ''.md'') (dom (files s)))"
proof -
  from assms(2,3) have "authority u = host u" by (simp add: authority_def)
  with urlparse_netloc_render [OF assms(1), of w]
  have d: "default_output_file w (render_url u) = Inr (replace_dots (host u) @ ''.md'')"
    by (simp add: default_output_file_def)
  then show ?thesis
    by (simp add: replace_dots_facts scrape_to_markdown_def async_with_crawler_def
        scrape_body_def Let_def)
qed

theorem default_file_of_host_witness:
  "valid_url url_example \<and> userinfo url_example = None \<and> port url_example = None \<and>
   render_url url_example = ''https://example.com'' \<and>
   default_output_file world_empty_page ''https://example.com'' = Inr ''example_com.md'' \<and>
   falsy_str None \<and> browser_start world_empty_page scrape_browser_config = None \<and>
   arun world_empty_page ''https://example.com'' scrape_run_config = Inr (page None None) \<and>
   success (page None None) \<and> open_w world_empty_page ''example_com.md'' = None \<and>
   dom (files (snd (scrape_to_markdown world_empty_page ''https://example.com'' None fresh))) =
     {''example_com.md''}"
  using default_file_of_host [of url_example world_empty_page None "page None None" fresh]
    url_example_facts(1,3)
  by (simp add: url_example_def replace_dots_def world_empty_page_def example_world_def page_def
      fresh_def falsy_str_def)

text \<open>
  Claim C5 as stated (for every valid URL, the host with dots replaced) fails
  for a URL with a port: the code takes \<^verbatim>\<open>netloc\<close>, which keeps the port, and
  \<^verbatim>\<open>https://example.com:8080\<close> is saved to \<^verbatim>\<open>example_com:8080.md\<close>.
\<close>

theorem default_file_keeps_port:
  "valid_url url_with_port \<and> host url_with_port = ''example.com'' \<and>
   render_url url_with_port = ''https://example.com:8080'' \<and>
   default_output_file world_empty_page ''https://example.com:8080'' = Inr ''example_com:8080.md'' \<and>
   dom (files (snd (scrape_to_markdown world_empty_page ''https://example.com:8080'' None fresh))) =
     {''example_com:8080.md''} \<and>
   ''example_com:8080.md'' \<noteq> replace_dots (host url_with_port) @ ''.md''"
proof -
  have a: "authority url_with_port = ''example.com:8080''"
    by (simp add: url_with_port_def url_example_def authority_def)
  have d: "default_output_file world_empty_page ''https://example.com:8080'' = Inr ''example_com:8080.md''"
    using urlparse_netloc_render [OF url_example_facts(2), of world_empty_page]
    by (simp add: url_example_facts(4) a default_output_file_def replace_dots_def)
  show ?thesis
    using url_example_facts(2,4) d
    by (simp add: url_with_port_def url_example_def world_empty_page_def example_world_def page_def
      fresh_def falsy_str_def scrape_to_markdown_def async_with_crawler_def scrape_body_def Let_def
      record_call_def print_def write_file_def replace_dots_def)
qed

section \<open>The report of \<^verbatim>\<open>scrape_reddit.py\<close>\<close>

text \<open>
  Normalisation does what the specification says for a list and for a
  mapping; for every other parsed value \<^verbatim>\<open>data.get\<close> raises.
\<close>

lemma normalize_posts_cases:
  "normalize_posts (JArray xs) = Inr (JArray xs)"
  "normalize_posts (JObject kvs) = Inr (case map_of kvs ''posts'' of None \<Rightarrow> JArray [] | Some v \<Rightarrow> v)"
  "normalize_posts JNull = Inl (AttributeError ''get'')"
  "normalize_posts (JBool b) = Inl (AttributeError ''get'')"
  "normalize_posts (JInt n) = Inl (AttributeError ''get'')"
  "normalize_posts (JFloat x) = Inl (AttributeError ''get'')"
  "normalize_posts (JString t) = Inl (AttributeError ''get'')"
  by (simp_all add: normalize_posts_def)

lemma print_fields_files: "files (snd (print_fields fs post s)) = files s"
  by (induction fs post s rule: print_fields.induct) (auto split: sum.splits)

lemma print_fields_object: "fst (print_fields fs (JObject kvs) s) = Inr ()"
  by (induction fs "JObject kvs" s rule: print_fields.induct) (auto simp: field_line_def)

lemma print_post_files: "files (snd (print_post i post s)) = files s"
proof -
  let ?s1 = "print [Lit ''--- Post '', PyStr (JInt (int i)), Lit '' ---''] s"
  obtain r s2 where pf: "print_fields post_fields post ?s1 = (r, s2)"
    by (cases "print_fields post_fields post ?s1")
  have "files s2 = files s" using print_fields_files [of post_fields post ?s1] pf by simp
  then show ?thesis
    by (simp add: print_post_def Let_def pf split: sum.splits)
qed

lemma print_post_printable:
  assumes "printable_post post"
  shows "fst (print_post i post s) = Inr ()"
proof -
  from assms obtain kvs where p: "post = JObject kvs" by (cases post) simp_all
  let ?s1 = "print [Lit ''--- Post '', PyStr (JInt (int i)), Lit '' ---''] s"
  obtain r s2 where pf: "print_fields post_fields (JObject kvs) ?s1 = (r, s2)"
    by (cases "print_fields post_fields (JObject kvs) ?s1")
  have r: "r = Inr ()" using print_fields_object [of post_fields kvs ?s1] pf by simp
  show ?thesis
  proof (cases "map_of kvs ''content_preview''")
    case None
    then show ?thesis by (simp add: print_post_def Let_def pf r p)
  next
    case (Some v)
    with assms p have "truthy v \<Longrightarrow> sliceable v" by (simp split: if_splits)
    then have "truthy v \<Longrightarrow> \<exists>x. py_slice_to 100 v = Inr x" by (cases v) simp_all
    with Some show ?thesis by (auto simp: print_post_def Let_def pf r p)
  qed
qed

lemma print_posts_files: "files (snd (print_posts i posts s)) = files s"
proof (induction posts arbitrary: i s)
  case Nil
  show ?case by simp
next
  case (Cons p ps)
  obtain r s' where step: "print_post i p s = (r, s')" by (cases "print_post i p s")
  then have "files s' = files s" using print_post_files [of i p s] by simp
  with step Cons show ?case by (cases r) simp_all
qed

lemma print_posts_printable:
  assumes "list_all printable_post posts"
  shows "fst (print_posts i posts s) = Inr ()"
  using assms
proof (induction posts arbitrary: i s)
  case Nil
  show ?case by simp
next
  case (Cons p ps)
  obtain r s' where step: "print_post i p s = (r, s')" by (cases "print_post i p s")
  from Cons.prems have "printable_post p" by simp
  then have "r = Inr ()" using print_post_printable [of p i s] step by simp
  with step Cons show ?case by simp
qed

lemma report_posts_printable:
  assumes "normalize_posts data = Inr (JArray posts)" and "list_all printable_post posts"
    and "open_w w ''reddit_posts.json'' = None"
  shows "fst (report_posts w data s) = Inr ()"
    and "files (snd (report_posts w data s)) =
      (files s)(''reddit_posts.json'' \<mapsto> JsonDump (JObject [(''posts'', JArray posts)]) 2)"
proof -
  let ?s1 = "print [Lit [CHR 0x0A], Lit ''Extracted '', PyStr (JInt (int (length posts))),
                                Lit '' posts:'', Lit [CHR 0x0A]] s"
  obtain r s2 where pp: "print_posts (Suc 0) posts ?s1 = (r, s2)"
    by (cases "print_posts (Suc 0) posts ?s1")
  have r: "r = Inr ()" using print_posts_printable [OF assms(2), of "Suc 0" ?s1] pp by simp
  have f: "files s2 = files s" using print_posts_files [of "Suc 0" posts ?s1] pp by simp
  show "fst (report_posts w data s) = Inr ()"
    by (simp add: report_posts_def assms(1,3) Let_def pp r)
  show "files (snd (report_posts w data s)) =
      (files s)(''reddit_posts.json'' \<mapsto> JsonDump (JObject [(''posts'', JArray posts)]) 2)"
    by (simp add: report_posts_def assms(1,3) Let_def pp r f)
qed

text \<open>
  Claim C2. For a response that parses to a list the records are that list,
  for a mapping they are its \<^verbatim>\<open>posts\<close> value (empty when absent), and for any
  other value they should be empty. At the response \<^verbatim>\<open>42\<close> the code does not
  reach an empty list: \<^verbatim>\<open>data.get\<close> raises \<^verbatim>\<open>AttributeError\<close>, which the handler
  of \<^verbatim>\<open>JSONDecodeError\<close> does not catch, and the run ends with that exception
  and no file.
\<close>

theorem normalize_posts_scalar_raises:
  "json_loads world_scalar ''42'' = Inr (JInt 42) \<and>
   normalize_posts (JInt 42) = Inl (AttributeError ''get'') \<and>
   fst (scrape_reddit_internship world_scalar fresh) = Inl (AttributeError ''get'') \<and>
   dom (files (snd (scrape_reddit_internship world_scalar fresh))) = {}"
  by (simp add: world_scalar_def example_defs scrape_reddit_internship_def falsy_str_def
      async_with_crawler_def reddit_body_def report_posts_def normalize_posts_def Let_def)

text \<open>
  Claim C1, as the code has it. When the model's response is not valid JSON
  the run recovers: it returns normally, the browser is closed, no file is
  written, and the parse error and the first 500 characters of the raw
  response are printed.
\<close>

theorem invalid_json_is_reported:
  assumes "\<not> falsy_str (getenv_GEMINI_API_KEY w)"
    and "browser_start w reddit_browser_config = None"
    and "arun w reddit_url (reddit_run_config (the (getenv_GEMINI_API_KEY w))) = Inr r"
    and "success r" and "extracted_content r = Some c" and "c \<noteq> []"
    and "json_loads w c = Inl msg"
  shows "fst (scrape_reddit_internship w s) = Inr () \<and>
         files (snd (scrape_reddit_internship w s)) = files s \<and>
         stdout (snd (scrape_reddit_internship w s)) =
           stdout s @
           [[Lit ''Crawling r/internships...''],
            [Lit (CHR 0x0A # ''Crawl successful!'')],
            [Lit ''Status code: '', PyStr (opt_int (status_code r))],
            [Lit ''Error parsing extracted content: '', Lit msg],
            [Lit ''Raw content: '', Lit (take 500 c)]] \<and>
         last (calls (snd (scrape_reddit_internship w s))) = BrowserClose"
  using assms
  by (simp add: scrape_reddit_internship_def async_with_crawler_def reddit_body_def Let_def
      falsy_str_def)

theorem invalid_json_is_reported_witness:
  "\<not> falsy_str (getenv_GEMINI_API_KEY world_bad_json) \<and>
   browser_start world_bad_json reddit_browser_config = None \<and>
   arun world_bad_json reddit_url (reddit_run_config ''key'') =
     Inr (page (Some ''# Page'') (Some ''not json'')) \<and>
   json_loads world_bad_json ''not json'' = Inl ''Expecting value: line 1 column 1 (char 0)'' \<and>
   fst (scrape_reddit_internship world_bad_json fresh) = Inr () \<and>
   files (snd (scrape_reddit_internship world_bad_json fresh)) = files fresh \<and>
   last (stdout (snd (scrape_reddit_internship world_bad_json fresh))) =
     [Lit ''Raw content: '', Lit ''not json'']"
  using invalid_json_is_reported [of world_bad_json "page (Some ''# Page'') (Some ''not json'')"
      "''not json''" "''Expecting value: line 1 column 1 (char 0)''" fresh]
  by (simp add: world_bad_json_def example_defs falsy_str_def)

text \<open>
  Claim C1 as stated (a fallback artifact, the raw markdown or the marker
  that nothing was extracted) fails: no file is written, and the output holds
  neither the page's markdown nor the marker.
\<close>

theorem invalid_json_leaves_no_artifact:
  "json_loads world_bad_json ''not json'' = Inl ''Expecting value: line 1 column 1 (char 0)'' \<and>
   markdown (page (Some ''# Page'') (Some ''not json'')) = Some ''# Page'' \<and>
   dom (files (snd (scrape_reddit_internship world_bad_json fresh))) = {} \<and>
   stdout (snd (scrape_reddit_internship world_bad_json fresh)) =
     [[Lit ''Crawling r/internships...''],
      [Lit (CHR 0x0A # ''Crawl successful!'')],
      [Lit ''Status code: '', PyStr (JInt 200)],
      [Lit ''Error parsing extracted content: '', Lit ''Expecting value: line 1 column 1 (char 0)''],
      [Lit ''Raw content: '', Lit ''not json'']] \<and>
   [Lit ''No content extracted by LLM''] \<notin> set (stdout (snd (scrape_reddit_internship world_bad_json fresh)))"
  by (simp add: world_bad_json_def example_defs scrape_reddit_internship_def falsy_str_def
      async_with_crawler_def reddit_body_def Let_def opt_int_def)

text \<open>
  Claim C9, as the code has it. When the crawl succeeds, the response parses,
  the normalised records are a list of objects that the report can print, and
  \<^verbatim>\<open>reddit_posts.json\<close> can be opened, the run writes to that file the object
  with the single key \<^verbatim>\<open>posts\<close> and the records as its value, dumped with
  \<^verbatim>\<open>indent=2\<close>, and writes no other file.
\<close>

theorem posts_file_is_written:
  assumes "\<not> falsy_str (getenv_GEMINI_API_KEY w)"
    and "browser_start w reddit_browser_config = None"
    and "arun w reddit_url (reddit_run_config (the (getenv_GEMINI_API_KEY w))) = Inr r"
    and "success r" and "extracted_content r = Some c" and "c \<noteq> []"
    and "json_loads w c = Inr data"
    and "normalize_posts data = Inr (JArray posts)" and "list_all printable_post posts"
    and "open_w w ''reddit_posts.json'' = None"
  shows "fst (scrape_reddit_internship w s) = Inr () \<and>
         files (snd (scrape_reddit_internship w s)) =
           (files s)(''reddit_posts.json'' \<mapsto> JsonDump (JObject [(''posts'', JArray posts)]) 2)"
proof -
  let ?k = "the (getenv_GEMINI_API_KEY w)"
  let ?s0 = "record_call (BrowserStart reddit_browser_config) s"
  let ?s4 = "print [Lit ''Status code: '', PyStr (opt_int (status_code r))]
              (print [Lit (CHR 0x0A # ''Crawl successful!'')]
                (record_call (Arun reddit_url (reddit_run_config ?k))
                  (print [Lit ''Crawling r/internships...''] ?s0)))"
  have body: "reddit_body w ?k ?s0 = report_posts w data ?s4"
    using assms(3-7) by (simp add: reddit_body_def Let_def falsy_str_def)
  obtain res s5 where rp: "report_posts w data ?s4 = (res, s5)"
    by (cases "report_posts w data ?s4")
  from report_posts_printable [OF assms(8,9,10), of ?s4] rp
  have res: "res = Inr ()"
    and f: "files s5 = (files s)(''reddit_posts.json'' \<mapsto> JsonDump (JObject [(''posts'', JArray posts)]) 2)"
    by simp_all
  show ?thesis
    using assms(1,2) by (simp add: scrape_reddit_internship_def async_with_crawler_def Let_def body rp res f)
qed

theorem posts_file_is_written_witness:
  "\<not> falsy_str (getenv_GEMINI_API_KEY world_posts) \<and>
   browser_start world_posts reddit_browser_config = None \<and>
   success (page (Some ''# Page'') (Some ''{\"posts\": [{\"title\": \"A\", \"author\": \"B\"}]}'')) \<and>
   json_loads world_posts ''{\"posts\": [{\"title\": \"A\", \"author\": \"B\"}]}'' =
     Inr (JObject [(''posts'', JArray [post_AB])]) \<and>
   normalize_posts (JObject [(''posts'', JArray [post_AB])]) = Inr (JArray [post_AB]) \<and>
   list_all printable_post [post_AB] \<and>
   open_w world_posts ''reddit_posts.json'' = None \<and>
   fst (scrape_reddit_internship world_posts fresh) = Inr () \<and>
   files (snd (scrape_reddit_internship world_posts fresh)) =
     [''reddit_posts.json'' \<mapsto> JsonDump (JObject [(''posts'', JArray [post_AB])]) 2]"
  using posts_file_is_written [of world_posts
      "page (Some ''# Page'') (Some ''{\"posts\": [{\"title\": \"A\", \"author\": \"B\"}]}'')"
      "''{\"posts\": [{\"title\": \"A\", \"author\": \"B\"}]}''"
      "JObject [(''posts'', JArray [post_AB])]" "[post_AB]" fresh]
  by (simp add: world_posts_def example_defs falsy_str_def normalize_posts_def post_AB_def)

text \<open>
  Claim C9 as stated (the file is written whenever the response parses)
  fails at the response \<^verbatim>\<open>[1]\<close>: the report raises at \<^verbatim>\<open>post.get\<close> before the
  file is opened.
\<close>

theorem number_list_writes_no_file:
  "success (page (Some ''# Page'') (Some ''[1]'')) \<and>
   json_loads world_number_list ''[1]'' = Inr (JArray [JInt 1]) \<and>
   normalize_posts (JArray [JInt 1]) = Inr (JArray [JInt 1]) \<and>
   fst (scrape_reddit_internship world_number_list fresh) = Inl (AttributeError ''get'') \<and>
   dom (files (snd (scrape_reddit_internship world_number_list fresh))) = {}"
  by (simp add: world_number_list_def example_defs scrape_reddit_internship_def falsy_str_def
      async_with_crawler_def reddit_body_def report_posts_def normalize_posts_def Let_def
      print_post_def post_fields_def field_line_def)

end
